theory Spec2Isabelle
  imports Main
begin

section \<open>JavaScript maps as insertion-ordered association lists\<close>

text \<open>
  The store keeps its per-session data in JavaScript \<open>Map\<close> objects. A \<open>Map\<close> holds
  at most one entry per key and iterates in insertion order, so it is modelled as an
  association list. \<open>map_set\<close> is \<open>Map.prototype.set\<close>: the value of a present key is
  replaced in place, a new key is appended at the end. \<open>map_delete\<close> is
  \<open>Map.prototype.delete\<close> (it drops what is stored under the key), \<open>map_get\<close> is \<open>Map.prototype.get\<close> with \<open>None\<close> for
  \<open>undefined\<close>, and \<open>map_has\<close> is \<open>Map.prototype.has\<close>. The copy constructor
  \<open>new Map(m)\<close> yields a map with the same entries in the same order, which in a model
  of values is \<open>m\<close> itself; \<open>new Map()\<close> is the empty list.
\<close>

type_synonym ('k, 'v) js_map = "('k \<times> 'v) list"

fun map_get :: "('k, 'v) js_map \<Rightarrow> 'k \<Rightarrow> 'v option" where
  "map_get [] k = None"
| "map_get ((k', v) # m) k = (if k' = k then Some v else map_get m k)"

fun map_has :: "('k, 'v) js_map \<Rightarrow> 'k \<Rightarrow> bool" where
  "map_has [] k = False"
| "map_has ((k', v) # m) k = (if k' = k then True else map_has m k)"

fun map_set :: "('k, 'v) js_map \<Rightarrow> 'k \<Rightarrow> 'v \<Rightarrow> ('k, 'v) js_map" where
  "map_set [] k v = [(k, v)]"
| "map_set ((k', v') # m) k v = (if k' = k then (k, v) # m else (k', v') # map_set m k v)"

fun map_delete :: "('k, 'v) js_map \<Rightarrow> 'k \<Rightarrow> ('k, 'v) js_map" where
  "map_delete [] k = []"
| "map_delete ((k', v) # m) k = (if k' = k then map_delete m k else (k', v) # map_delete m k)"

definition map_keys :: "('k, 'v) js_map \<Rightarrow> 'k list" where
  "map_keys m = map fst m"

section \<open>The client store (web/src/store.ts)\<close>

subsection \<open>Data\<close>

text \<open>
  \<open>types.ts\<close> is not among the sources. Of \<open>PermissionRequest\<close> and \<open>SdkSessionInfo\<close>
  the store reads one field each (\<open>request_id\<close>, \<open>sessionId\<close>); their other fields are
  the extension part of the record. \<open>SessionState\<close>, \<open>ChatMessage\<close> and \<open>TaskItem\<close>
  are only stored and moved by the operations modelled here and stay type parameters
  (\<open>'ss\<close>, \<open>'msg\<close>, \<open>'task\<close>).
\<close>

record PermissionRequest =
  request_id :: string

record SdkSessionInfo =
  sessionId :: string

datatype connection_status = Connecting | Connected | Disconnected

datatype session_status = Idle | Running | Compacting

text \<open>
  The data fields of \<open>AppState\<close>, in the order of the interface. A \<open>number\<close> is only
  stored, never computed with, by the operations below; it is an \<open>int\<close> here.
  \<open>string | null\<close> is \<open>string option\<close>.
\<close>

record ('ss, 'sdk, 'msg, 'perm, 'task) app_state =
  sessions :: "(string, 'ss) js_map"
  sdkSessions :: "'sdk SdkSessionInfo_scheme list"
  currentSessionId :: "string option"
  messages :: "(string, 'msg list) js_map"
  streaming :: "(string, string) js_map"
  streamingStartedAt :: "(string, int) js_map"
  streamingOutputTokens :: "(string, int) js_map"
  pendingPermissions :: "(string, (string, 'perm PermissionRequest_scheme) js_map) js_map"
  connectionStatus :: "(string, connection_status) js_map"
  cliConnected :: "(string, bool) js_map"
  sessionStatus :: "(string, session_status option) js_map"
  previousPermissionMode :: "(string, string) js_map"
  sessionTasks :: "(string, 'task list) js_map"
  sessionNames :: "(string, string) js_map"
  darkMode :: bool
  sidebarOpen :: bool
  taskPanelOpen :: bool
  homeResetKey :: int

text \<open>
  The browser's \<open>localStorage\<close>, restricted to the three keys the store uses. The value
  under \<open>cc-session-names\<close> is the JSON text of an array of name entries; it is kept as
  the array itself, so a stored text that does not parse has no counterpart here.
\<close>

record local_storage =
  cc_session_names :: "(string \<times> string) list option"
  cc_current_session :: "string option"
  cc_dark_mode :: "string option"

text \<open>
  What the initial state reads from the browser: the window's inner width and whether
  the media query \<open>(prefers-color-scheme: dark)\<close> matches.
\<close>

record window =
  innerWidth :: int
  prefers_dark :: bool

subsection \<open>Operations\<close>

text \<open>
  \<open>new Map(entries)\<close> on an array of entries sets them one after the other, so a
  repeated key keeps its first position and its last value.
\<close>

definition map_of_entries :: "('k \<times> 'v) list \<Rightarrow> ('k, 'v) js_map" where
  "map_of_entries es = foldl (\<lambda>m (k, v). map_set m k v) [] es"

text \<open>
  The initial state of the store. Without a window (\<open>typeof window === "undefined"\<close>)
  nothing is read from \<open>localStorage\<close>. \<open>getInitialSessionId\<close> turns an empty stored
  id into \<open>null\<close>; \<open>getInitialDarkMode\<close> prefers the stored flag to the media query.
\<close>

definition getInitialSessionNames :: "(window \<times> local_storage) option \<Rightarrow> (string, string) js_map" where
  "getInitialSessionNames browser =
     (case browser of
        None \<Rightarrow> []
      | Some (w, ls) \<Rightarrow> (case cc_session_names ls of None \<Rightarrow> [] | Some es \<Rightarrow> map_of_entries es))"

definition getInitialSessionId :: "(window \<times> local_storage) option \<Rightarrow> string option" where
  "getInitialSessionId browser =
     (case browser of
        None \<Rightarrow> None
      | Some (w, ls) \<Rightarrow>
          (case cc_current_session ls of None \<Rightarrow> None | Some i \<Rightarrow> if i = [] then None else Some i))"

definition getInitialDarkMode :: "(window \<times> local_storage) option \<Rightarrow> bool" where
  "getInitialDarkMode browser =
     (case browser of
        None \<Rightarrow> False
      | Some (w, ls) \<Rightarrow>
          (case cc_dark_mode ls of Some stored \<Rightarrow> stored = ''true'' | None \<Rightarrow> prefers_dark w))"

definition initial_state :: "(window \<times> local_storage) option \<Rightarrow> ('ss, 'sdk, 'msg, 'perm, 'task) app_state" where
  "initial_state browser =
     \<lparr>sessions = [], sdkSessions = [], currentSessionId = getInitialSessionId browser,
      messages = [], streaming = [], streamingStartedAt = [], streamingOutputTokens = [],
      pendingPermissions = [], connectionStatus = [], cliConnected = [], sessionStatus = [],
      previousPermissionMode = [], sessionTasks = [],
      sessionNames = getInitialSessionNames browser,
      darkMode = getInitialDarkMode browser,
      sidebarOpen = (case browser of Some (w, ls) \<Rightarrow> innerWidth w \<ge> 768 | None \<Rightarrow> True),
      taskPanelOpen = (case browser of Some (w, ls) \<Rightarrow> innerWidth w \<ge> 1024 | None \<Rightarrow> False),
      homeResetKey = 0\<rparr>"

text \<open>
  \<open>removeSession\<close> deletes the session id from each of the twelve maps, filters it out
  of \<open>sdkSessions\<close>, clears \<open>currentSessionId\<close> when it is the removed session, writes
  the remaining names to \<open>localStorage\<close> and removes the stored current session in that
  same case.
\<close>

definition removeSession ::
  "string \<Rightarrow> local_storage \<times> ('ss, 'sdk, 'msg, 'perm, 'task) app_state
     \<Rightarrow> local_storage \<times> ('ss, 'sdk, 'msg, 'perm, 'task) app_state" where
  "removeSession sid w =
     (let (ls, s) = w;
          sessions' = map_delete (sessions s) sid;
          messages' = map_delete (messages s) sid;
          streaming' = map_delete (streaming s) sid;
          streamingStartedAt' = map_delete (streamingStartedAt s) sid;
          streamingOutputTokens' = map_delete (streamingOutputTokens s) sid;
          connectionStatus' = map_delete (connectionStatus s) sid;
          cliConnected' = map_delete (cliConnected s) sid;
          sessionStatus' = map_delete (sessionStatus s) sid;
          previousPermissionMode' = map_delete (previousPermissionMode s) sid;
          pendingPermissions' = map_delete (pendingPermissions s) sid;
          sessionTasks' = map_delete (sessionTasks s) sid;
          sessionNames' = map_delete (sessionNames s) sid;
          ls1 = ls\<lparr>cc_session_names := Some sessionNames'\<rparr>;
          ls2 = (if currentSessionId s = Some sid then ls1\<lparr>cc_current_session := None\<rparr> else ls1)
      in (ls2,
          s\<lparr>sessions := sessions',
            messages := messages',
            streaming := streaming',
            streamingStartedAt := streamingStartedAt',
            streamingOutputTokens := streamingOutputTokens',
            connectionStatus := connectionStatus',
            cliConnected := cliConnected',
            sessionStatus := sessionStatus',
            previousPermissionMode := previousPermissionMode',
            pendingPermissions := pendingPermissions',
            sessionTasks := sessionTasks',
            sessionNames := sessionNames',
            sdkSessions := filter (\<lambda>sdk. sessionId sdk \<noteq> sid) (sdkSessions s),
            currentSessionId := (if currentSessionId s = Some sid then None else currentSessionId s)\<rparr>))"

text \<open>
  \<open>messages.get(sessionId) || []\<close>: the stored list, or the empty list when the
  session has none (an array is never falsy).
\<close>

definition session_messages :: "('ss, 'sdk, 'msg, 'perm, 'task) app_state \<Rightarrow> string \<Rightarrow> 'msg list" where
  "session_messages s sid = (case map_get (messages s) sid of None \<Rightarrow> [] | Some l \<Rightarrow> l)"

definition appendMessage ::
  "string \<Rightarrow> 'msg \<Rightarrow> ('ss, 'sdk, 'msg, 'perm, 'task) app_state \<Rightarrow> ('ss, 'sdk, 'msg, 'perm, 'task) app_state" where
  "appendMessage sid msg s =
     (let list = session_messages s sid @ [msg]
      in s\<lparr>messages := map_set (messages s) sid list\<rparr>)"

text \<open>
  \<open>pendingPermissions.get(sessionId) || []\<close>: the session's pending map, or an empty
  one.
\<close>

definition session_permissions ::
  "('ss, 'sdk, 'msg, 'perm, 'task) app_state \<Rightarrow> string \<Rightarrow> (string, 'perm PermissionRequest_scheme) js_map" where
  "session_permissions s sid = (case map_get (pendingPermissions s) sid of None \<Rightarrow> [] | Some m \<Rightarrow> m)"

definition addPermission ::
  "string \<Rightarrow> 'perm PermissionRequest_scheme \<Rightarrow> ('ss, 'sdk, 'msg, 'perm, 'task) app_state
     \<Rightarrow> ('ss, 'sdk, 'msg, 'perm, 'task) app_state" where
  "addPermission sid perm s =
     (let sessionPerms = map_set (session_permissions s sid) (request_id perm) perm
      in s\<lparr>pendingPermissions := map_set (pendingPermissions s) sid sessionPerms\<rparr>)"

text \<open>
  \<open>removePermission\<close> touches the state only when the session has a pending map (a
  \<open>Map\<close> object is always truthy, so the test is for presence).
\<close>

definition removePermission ::
  "string \<Rightarrow> string \<Rightarrow> ('ss, 'sdk, 'msg, 'perm, 'task) app_state \<Rightarrow> ('ss, 'sdk, 'msg, 'perm, 'task) app_state" where
  "removePermission sid requestId s =
     (case map_get (pendingPermissions s) sid of
        None \<Rightarrow> s
      | Some sessionPerms \<Rightarrow>
          (let updated = map_delete sessionPerms requestId
           in s\<lparr>pendingPermissions := map_set (pendingPermissions s) sid updated\<rparr>))"

subsection \<open>Sequences of permission operations\<close>

datatype 'perm permission_op =
  AddPermission string "'perm PermissionRequest_scheme"
| RemovePermission string string

fun apply_permission_op ::
  "'perm permission_op \<Rightarrow> ('ss, 'sdk, 'msg, 'perm, 'task) app_state \<Rightarrow> ('ss, 'sdk, 'msg, 'perm, 'task) app_state" where
  "apply_permission_op (AddPermission sid perm) s = addPermission sid perm s"
| "apply_permission_op (RemovePermission sid requestId) s = removePermission sid requestId s"

definition run_permission_ops ::
  "'perm permission_op list \<Rightarrow> ('ss, 'sdk, 'msg, 'perm, 'task) app_state \<Rightarrow> ('ss, 'sdk, 'msg, 'perm, 'task) app_state" where
  "run_permission_ops ops s = foldl (\<lambda>s' op. apply_permission_op op s') s ops"

text \<open>
  A pending set is well formed when no two of its entries carry the same
  \<open>request_id\<close> and every entry is stored under the \<open>request_id\<close> of its request.
  The pending permissions of a state are well formed when each session has one pending
  set and every pending set is well formed.
\<close>

definition pending_set_ok :: "(string, 'perm PermissionRequest_scheme) js_map \<Rightarrow> bool" where
  "pending_set_ok sp \<longleftrightarrow>
     distinct (map (\<lambda>(k, p). request_id p) sp) \<and> list_all (\<lambda>(k, p). k = request_id p) sp"

definition pending_unique :: "('ss, 'sdk, 'msg, 'perm, 'task) app_state \<Rightarrow> bool" where
  "pending_unique s \<longleftrightarrow>
     distinct (map_keys (pendingPermissions s)) \<and>
     list_all (\<lambda>(sid, sp). pending_set_ok sp) (pendingPermissions s)"

section \<open>The HTTP routes (web/server/routes.ts)\<close>

subsection \<open>Responses\<close>

text \<open>
  \<open>c.json(value)\<close> answers with status 200, \<open>c.json(value, n)\<close> with status \<open>n\<close>. The
  bodies the modelled handlers send are \<open>{ error: msg }\<close>, \<open>{ ok: true }\<close> and a session
  descriptor returned by the launcher.
\<close>

datatype 'a payload = ErrorBody string | OkBody | Data 'a

datatype 'a response = Json (payload: "'a payload") (status: nat)

text \<open>JavaScript truthiness of an optional string: present and not empty.\<close>

fun truthy :: "string option \<Rightarrow> bool" where
  "truthy None = False"
| "truthy (Some s) = (s \<noteq> [])"

subsection \<open>POST /agents/:name/approve\<close>

text \<open>
  The parsed request body, with the fields the handler reads, typed as the controller
  calls take them. A field that is absent is \<open>None\<close>.
\<close>

record approve_body =
  body_requestId :: "string option"
  body_type :: "string option"
  body_approve :: "bool option"
  body_feedback :: "string option"

text \<open>
  \<open>ControllerBridge\<close> (controller-bridge.ts) is not among the sources; the three
  operations the handler calls are parameters, acting on a bridge state \<open>'b\<close>. A
  controller call either returns (\<open>None\<close>) or throws (\<open>Some\<close> of the error message);
  a failure of \<open>bridge.getController()\<close> is counted as the controller call throwing.
\<close>

record 'b controller_bridge =
  sendPlanApproval :: "string \<Rightarrow> string \<Rightarrow> bool \<Rightarrow> string option \<Rightarrow> 'b \<Rightarrow> string option \<times> 'b"
  sendPermissionResponse :: "string \<Rightarrow> string \<Rightarrow> bool \<Rightarrow> 'b \<Rightarrow> string option \<times> 'b"
  removeApproval :: "string \<Rightarrow> 'b \<Rightarrow> 'b"

text \<open>
  The end of the handler, once the controller call is over: an exception leaves the
  handler (\<open>Inl\<close>) before \<open>removeApproval\<close>; otherwise the approval is removed and the
  answer is \<open>{ ok: true }\<close>.
\<close>

definition approve_finish ::
  "'b controller_bridge \<Rightarrow> string \<Rightarrow> string option \<times> 'b \<Rightarrow> (string + unit response) \<times> 'b" where
  "approve_finish B requestId r =
     (case r of
        (Some err, st) \<Rightarrow> (Inl err, st)
      | (None, st) \<Rightarrow> (Inr (Json OkBody 200), removeApproval B requestId st))"

text \<open>
  The handler. \<open>await c.req.json()\<close> throws on a body that is not JSON (\<open>None\<close>).
  \<open>body.approve ?? true\<close> is the given flag, or \<open>true\<close> when there is none.
\<close>

definition agents_approve ::
  "'b controller_bridge \<Rightarrow> string \<Rightarrow> approve_body option \<Rightarrow> 'b \<Rightarrow> (string + unit response) \<times> 'b" where
  "agents_approve B agent parsed st =
     (case parsed of
        None \<Rightarrow> (Inl ''SyntaxError'', st)
      | Some body \<Rightarrow>
          (case body_requestId body of
             None \<Rightarrow> (Inr (Json (ErrorBody ''requestId is required'') 400), st)
           | Some requestId \<Rightarrow>
               if \<not> truthy (Some requestId) then
                 (Inr (Json (ErrorBody ''requestId is required'') 400), st)
               else if \<not> truthy (body_type body) \<or>
                       body_type body \<notin> set [Some ''plan'', Some ''permission''] then
                 (Inr (Json (ErrorBody ''type must be \"plan\" or \"permission\"'') 400), st)
               else
                 (let approve = (case body_approve body of None \<Rightarrow> True | Some a \<Rightarrow> a)
                  in if body_type body = Some ''plan'' then
                       approve_finish B requestId
                         (sendPlanApproval B agent requestId approve (body_feedback body) st)
                     else
                       approve_finish B requestId
                         (sendPermissionResponse B agent requestId approve st))))"

text \<open>A bridge that only records the calls it receives, in order, and never throws.\<close>

datatype bridge_call =
  SendPlanApproval string string bool "string option"
| SendPermissionResponse string string bool
| RemoveApproval string

definition recording_bridge :: "bridge_call list controller_bridge" where
  "recording_bridge =
     \<lparr>sendPlanApproval = (\<lambda>agent requestId approve feedback calls.
          (None, calls @ [SendPlanApproval agent requestId approve feedback])),
      sendPermissionResponse = (\<lambda>agent requestId approve calls.
          (None, calls @ [SendPermissionResponse agent requestId approve])),
      removeApproval = (\<lambda>requestId calls. calls @ [RemoveApproval requestId])\<rparr>"

subsection \<open>POST /sessions/:id/kill\<close>

text \<open>
  \<open>CliLauncher\<close> (cli-launcher.ts) is not among the sources: \<open>launcher.kill\<close> is a
  parameter that, from a launcher state \<open>'l\<close>, returns the flag \<open>killed\<close> and the next
  state. The handler answers 404 when the flag is false.
\<close>

definition sessions_kill ::
  "(string \<Rightarrow> 'l \<Rightarrow> bool \<times> 'l) \<Rightarrow> string \<Rightarrow> 'l \<Rightarrow> unit response \<times> 'l" where
  "sessions_kill kill sid l =
     (let (killed, l') = kill sid l
      in if \<not> killed then (Json (ErrorBody ''Session not found or already exited'') 404, l')
         else (Json OkBody 200, l'))"

text \<open>
  The earlier \<open>createRoutes(bridge, launcher?, wsBridge?)\<close> has the same handler behind
  a test for the optional launcher.
\<close>

definition sessions_kill_optional ::
  "(string \<Rightarrow> 'l \<Rightarrow> bool \<times> 'l) \<Rightarrow> string \<Rightarrow> 'l option \<Rightarrow> unit response \<times> 'l option" where
  "sessions_kill_optional kill sid launcher =
     (case launcher of
        None \<Rightarrow> (Json (ErrorBody ''CLI launcher not available'') 503, None)
      | Some l \<Rightarrow>
          (let (killed, l') = kill sid l
           in if \<not> killed then (Json (ErrorBody ''Session not found or already exited'') 404, Some l')
              else (Json OkBody 200, Some l')))"

text \<open>
  What the handlers take from \<open>launcher.kill\<close> is stated as a contract, relative to a
  predicate \<open>running\<close> that tells of a launcher state which sessions have a running
  process. For a session that is not running, the flag is false (the handler's own error
  text for a false flag is \<open>Session not found or already exited\<close>) and the launcher
  state stays as it is (the spec: \<open>kill\<close> is idempotent and has no side effect on a
  process that is not running). For a running session the flag is true and the session
  is not running afterwards.
\<close>

definition kill_contract :: "('l \<Rightarrow> string \<Rightarrow> bool) \<Rightarrow> (string \<Rightarrow> 'l \<Rightarrow> bool \<times> 'l) \<Rightarrow> bool" where
  "kill_contract running kill \<longleftrightarrow>
     (\<forall>sid l. \<not> running l sid \<longrightarrow> kill sid l = (False, l)) \<and>
     (\<forall>sid l. running l sid \<longrightarrow> fst (kill sid l) \<and> \<not> running (snd (kill sid l)) sid)"

subsection \<open>Environment bundles (web/server/env-manager.ts)\<close>

record CompanionEnv =
  name :: string
  slug :: string
  variables :: "(string, string) js_map"
  createdAt :: int
  updatedAt :: int

text \<open>
  The directory \<open>~/.companion/envs\<close>: a file name is mapped to what reading and parsing
  the file gives, a bundle or a failure of \<open>JSON.parse\<close>. \<open>filePath\<close> is relative to
  that directory. \<open>ensureDir\<close> is taken to succeed.
\<close>

datatype env_file = Parsed CompanionEnv | Unparsable

type_synonym envs_dir = "string \<Rightarrow> env_file option"

definition filePath :: "string \<Rightarrow> string" where
  "filePath sl = sl @ ''.json''"

text \<open>\<open>getEnv\<close> returns \<open>null\<close> when the file cannot be read or parsed.\<close>

definition getEnv :: "envs_dir \<Rightarrow> string \<Rightarrow> CompanionEnv option" where
  "getEnv dir sl =
     (case dir (filePath sl) of
        Some (Parsed e) \<Rightarrow> Some e
      | Some Unparsable \<Rightarrow> None
      | None \<Rightarrow> None)"

subsection \<open>POST /sessions/create\<close>

text \<open>
  The parsed body; \<open>env\<close> is a \<open>Record<string, string>\<close>, an object, kept as the list
  of its entries.
\<close>

record create_body =
  body_model :: "string option"
  body_permissionMode :: "string option"
  body_cwd :: "string option"
  body_claudeBinary :: "string option"
  body_allowedTools :: "string list option"
  body_env :: "(string, string) js_map option"
  body_envSlug :: "string option"

text \<open>A body that is not JSON is replaced by the empty object.\<close>

definition empty_body :: create_body where
  "empty_body =
     \<lparr>body_model = None, body_permissionMode = None, body_cwd = None, body_claudeBinary = None,
      body_allowedTools = None, body_env = None, body_envSlug = None\<rparr>"

text \<open>The object handed to \<open>launcher.launch\<close>.\<close>

record launch_options =
  model :: "string option"
  permissionMode :: "string option"
  cwd :: "string option"
  claudeBinary :: "string option"
  allowedTools :: "string list option"
  env :: "(string, string) js_map option"

text \<open>
  The lines written to the console, by what they report:
  \<open>[routes] Injecting env "name" (n vars): keys\<close>,
  \<open>[routes] Environment "slug" not found, ignoring\<close> (a warning) and
  \<open>[routes] Failed to create session: msg\<close> (an error).
\<close>

datatype log_line =
  LogInjecting string nat "string list"
| WarnNotFound string
| ErrorFailedToCreate string

text \<open>
  The object literal \<open>{ ...a, ...b }\<close>: the entries of \<open>a\<close>, then those of \<open>b\<close>, set
  one after the other on an empty object. Spreading \<open>undefined\<close> adds no entry.
\<close>

definition spread_entries :: "(string, string) js_map option \<Rightarrow> (string \<times> string) list" where
  "spread_entries b = (case b of None \<Rightarrow> [] | Some b' \<Rightarrow> b')"

definition spread2 :: "(string, string) js_map \<Rightarrow> (string, string) js_map option \<Rightarrow> (string, string) js_map" where
  "spread2 a b = map_of_entries (a @ spread_entries b)"

text \<open>
  Lines 209 to 218 of the handler: the environment variables of the launch and the lines
  logged while resolving them.
\<close>

definition resolve_env_vars ::
  "envs_dir \<Rightarrow> create_body \<Rightarrow> (string, string) js_map option \<times> log_line list" where
  "resolve_env_vars dir body =
     (case body_envSlug body of
        None \<Rightarrow> (body_env body, [])
      | Some sl \<Rightarrow>
          if \<not> truthy (Some sl) then (body_env body, [])
          else
            (case getEnv dir sl of
               Some companionEnv \<Rightarrow>
                 (Some (spread2 (variables companionEnv) (body_env body)),
                  [LogInjecting (name companionEnv) (length (map_keys (variables companionEnv)))
                     (map_keys (variables companionEnv))])
             | None \<Rightarrow> (body_env body, [WarnNotFound sl])))"

text \<open>
  \<open>launcher.launch\<close> is a parameter: from the options and the launcher state it returns
  the session descriptor, or throws (\<open>Inl\<close> of the message). The end of the handler
  answers with the descriptor, or, in the \<open>catch\<close> block, logs the message and answers
  with status 500.
\<close>

definition create_respond ::
  "log_line list \<Rightarrow> (string + 's) \<times> 'l \<Rightarrow> ('s response \<times> log_line list) \<times> 'l" where
  "create_respond logs r =
     (case r of
        (Inr session, l') \<Rightarrow> ((Json (Data session) 200, logs), l')
      | (Inl msg, l') \<Rightarrow> ((Json (ErrorBody msg) 500, logs @ [ErrorFailedToCreate msg]), l'))"

definition sessions_create ::
  "envs_dir \<Rightarrow> (launch_options \<Rightarrow> 'l \<Rightarrow> (string + 's) \<times> 'l) \<Rightarrow> create_body option \<Rightarrow> 'l
     \<Rightarrow> ('s response \<times> log_line list) \<times> 'l" where
  "sessions_create dir launch parsed l =
     (let body = (case parsed of None \<Rightarrow> empty_body | Some b \<Rightarrow> b);
          (envVars, logs) = resolve_env_vars dir body
      in create_respond logs
           (launch \<lparr>model = body_model body,
                    permissionMode = body_permissionMode body,
                    cwd = body_cwd body,
                    claudeBinary = body_claudeBinary body,
                    allowedTools = body_allowedTools body,
                    env = envVars\<rparr> l))"

text \<open>A launcher that records the options of every launch and returns their number.\<close>

definition recording_launch :: "launch_options \<Rightarrow> launch_options list \<Rightarrow> (string + nat) \<times> launch_options list" where
  "recording_launch opts launched = (Inr (length launched), launched @ [opts])"

section \<open>Example data\<close>

text \<open>
  A store with two sessions: \<open>s2\<close> has one pending request, \<open>s1\<close> has two pending
  requests and one message. The theorems below are instantiated on it.
\<close>

definition example_state :: "(unit, unit, string, string, unit) app_state" where
  "example_state =
     appendMessage ''s1'' ''hello''
       (addPermission ''s1'' \<lparr>request_id = ''r2'', \<dots> = ''Edit''\<rparr>
         (addPermission ''s1'' \<lparr>request_id = ''r1'', \<dots> = ''Bash''\<rparr>
           (addPermission ''s2'' \<lparr>request_id = ''r1'', \<dots> = ''Read''\<rparr> (initial_state None))))"

text \<open>
  An environment directory with the bundle \<open>prod\<close> and a file that does not parse, and
  a request body that names the bundle and gives two variables of its own.
\<close>

definition example_dir :: envs_dir where
  "example_dir =
     [''prod.json'' \<mapsto> Parsed \<lparr>name = ''Prod'', slug = ''prod'',
                                  variables = [(''API_URL'', ''https://prod''), (''REGION'', ''eu'')],
                                  createdAt = 1, updatedAt = 2\<rparr>,
      ''broken.json'' \<mapsto> Unparsable]"

definition example_create_body :: create_body where
  "example_create_body =
     \<lparr>body_model = Some ''opus'', body_permissionMode = None, body_cwd = Some ''/tmp'',
      body_claudeBinary = None, body_allowedTools = None,
      body_env = Some [(''REGION'', ''us''), (''DEBUG'', ''1'')],
      body_envSlug = Some ''prod''\<rparr>"

text \<open>
  A launcher that keeps, for each session it knows, whether its process is running or
  has exited. Its \<open>kill\<close> marks a running session as exited and reports true; for a
  session that has exited or that it does not know it reports false and changes nothing.
\<close>

datatype process_state = ProcessRunning | ProcessExited

definition example_running :: "(string, process_state) js_map \<Rightarrow> string \<Rightarrow> bool" where
  "example_running l sid \<longleftrightarrow> map_get l sid = Some ProcessRunning"

definition example_kill :: "string \<Rightarrow> (string, process_state) js_map \<Rightarrow> bool \<times> (string, process_state) js_map" where
  "example_kill sid l =
     (case map_get l sid of
        Some ProcessRunning \<Rightarrow> (True, map_set l sid ProcessExited)
      | Some ProcessExited \<Rightarrow> (False, l)
      | None \<Rightarrow> (False, l))"

section \<open>Properties of the map operations\<close>

lemma map_get_set: "map_get (map_set m k v) k' = (if k' = k then Some v else map_get m k')"
  by (induction m) auto

lemma map_get_delete: "map_get (map_delete m k) k' = (if k' = k then None else map_get m k')"
  by (induction m) auto

lemma map_has_get: "map_has m k \<longleftrightarrow> map_get m k \<noteq> None"
  by (induction m) (auto split: if_splits)

lemma map_get_keys: "map_get m k = None \<longleftrightarrow> k \<notin> set (map_keys m)"
  by (induction m) (auto simp: map_keys_def split: if_splits)

lemma map_get_in_set: "map_get m k = Some v \<Longrightarrow> (k, v) \<in> set m"
  by (induction m) (auto split: if_splits)

lemma map_delete_absent: "map_get m k = None \<Longrightarrow> map_delete m k = m"
  by (induction m) (auto split: if_splits)

lemma map_delete_idem: "map_delete (map_delete m k) k = map_delete m k"
  by (simp add: map_delete_absent map_get_delete)

lemma map_set_same: "map_get m k = Some v \<Longrightarrow> map_set m k v = m"
  by (induction m) (auto split: if_splits)

lemma map_set_set: "map_set (map_set m k v) k v' = map_set m k v'"
  by (induction m) auto

lemma keys_map_delete: "map_keys (map_delete m k) = removeAll k (map_keys m)"
  by (induction m) (auto simp: map_keys_def)

lemma keys_map_set:
  "map_keys (map_set m k v) = (if k \<in> set (map_keys m) then map_keys m else map_keys m @ [k])"
  by (induction m) (auto simp: map_keys_def split: if_splits)

lemma length_map_set: "length (map_set m k v) = (if map_has m k then length m else Suc (length m))"
  by (induction m) (auto split: if_splits)

lemma map_delete_filter: "map_delete m k = filter (\<lambda>e. fst e \<noteq> k) m"
  by (induction m) auto

lemma set_map_set_subset: "set (map_set m k v) \<subseteq> insert (k, v) (set m)"
proof (induction m)
  case Nil
  show ?case by simp
next
  case (Cons e m)
  obtain k' v' where e: "e = (k', v')" by (cases e)
  show ?case
  proof (cases "k' = k")
    case True
    then show ?thesis using e by auto
  next
    case False
    then show ?thesis using e Cons.IH by auto
  qed
qed

lemma example_state_eval:
  "pendingPermissions example_state =
     [(''s2'', [(''r1'', \<lparr>request_id = ''r1'', \<dots> = ''Read''\<rparr>)]),
      (''s1'', [(''r1'', \<lparr>request_id = ''r1'', \<dots> = ''Bash''\<rparr>), (''r2'', \<lparr>request_id = ''r2'', \<dots> = ''Edit''\<rparr>)])]"
  "messages example_state = [(''s1'', [''hello''])]"
  by (simp_all add: example_state_def appendMessage_def addPermission_def initial_state_def
      session_permissions_def session_messages_def)

section \<open>Resolving approvals\<close>

lemma removePermission_absent:
  assumes "map_get (session_permissions s sid) requestId = None"
  shows "removePermission sid requestId s = s"
proof (cases "map_get (pendingPermissions s) sid")
  case None
  then show ?thesis by (simp add: removePermission_def)
next
  case (Some sp)
  with assms have "map_get sp requestId = None"
    by (simp add: session_permissions_def)
  then have "map_delete sp requestId = sp"
    by (rule map_delete_absent)
  with Some show ?thesis
    by (simp add: removePermission_def map_set_same)
qed

lemma removePermission_other:
  assumes "(sid', requestId') \<noteq> (sid, requestId)"
  shows "map_get (session_permissions (removePermission sid requestId s) sid') requestId' =
      map_get (session_permissions s sid') requestId'"
proof (cases "map_get (pendingPermissions s) sid")
  case None
  then show ?thesis by (simp add: removePermission_def)
next
  case (Some sp)
  show ?thesis
  proof (cases "sid' = sid")
    case True
    with assms have "requestId' \<noteq> requestId" by simp
    with True Some show ?thesis
      by (simp add: removePermission_def session_permissions_def map_get_set map_get_delete)
  next
    case False
    with Some show ?thesis
      by (simp add: removePermission_def session_permissions_def map_get_set)
  qed
qed

lemma removePermission_idem:
  "removePermission sid requestId (removePermission sid requestId s) = removePermission sid requestId s"
proof (cases "map_get (pendingPermissions s) sid")
  case None
  then show ?thesis by (simp add: removePermission_def)
next
  case (Some sp)
  then show ?thesis
    by (simp add: removePermission_def map_get_set map_delete_idem map_set_set)
qed

text \<open>
  C1. Resolving a request id that is not pending leaves the state as it is; resolving
  any request id leaves every pending approval stored under another session or another
  request id as it is; resolving the same request id twice gives the state that
  resolving it once gives.
\<close>

theorem removePermission_absent_noop:
  "(map_get (session_permissions s sid) requestId = None \<longrightarrow> removePermission sid requestId s = s) \<and>
   (\<forall>sid' requestId'. (sid', requestId') \<noteq> (sid, requestId) \<longrightarrow>
      map_get (session_permissions (removePermission sid requestId s) sid') requestId' =
      map_get (session_permissions s sid') requestId') \<and>
   removePermission sid requestId (removePermission sid requestId s) = removePermission sid requestId s"
  using removePermission_absent [of s sid requestId] removePermission_other [of _ _ sid requestId s]
    removePermission_idem [of sid requestId s]
  by blast

theorem removePermission_absent_noop_witness:
  "map_get (session_permissions example_state ''s1'') ''r3'' = None \<and>
   removePermission ''s1'' ''r3'' example_state = example_state \<and>
   (''s1'', ''r2'') \<noteq> (''s1'', ''r1'') \<and>
   map_get (session_permissions (removePermission ''s1'' ''r1'' example_state) ''s1'') ''r2'' =
     Some \<lparr>request_id = ''r2'', \<dots> = ''Edit''\<rparr> \<and>
   (''s2'', ''r1'') \<noteq> (''s1'', ''r1'') \<and>
   map_get (session_permissions (removePermission ''s1'' ''r1'' example_state) ''s2'') ''r1'' =
     Some \<lparr>request_id = ''r1'', \<dots> = ''Read''\<rparr>"
proof -
  have absent: "map_get (session_permissions example_state ''s1'') ''r3'' = None"
    by (simp add: session_permissions_def example_state_eval)
  have r2: "map_get (session_permissions example_state ''s1'') ''r2'' = Some \<lparr>request_id = ''r2'', \<dots> = ''Edit''\<rparr>"
    by (simp add: session_permissions_def example_state_eval)
  have r1: "map_get (session_permissions example_state ''s2'') ''r1'' = Some \<lparr>request_id = ''r1'', \<dots> = ''Read''\<rparr>"
    by (simp add: session_permissions_def example_state_eval)
  from absent r1 r2
    removePermission_absent_noop [of example_state "''s1''" "''r3''"]
    removePermission_absent_noop [of example_state "''s1''" "''r1''"]
  show ?thesis by simp
qed

section \<open>Removing a session\<close>

lemma removeSession_fields:
  "sessions (snd (removeSession sid (ls, s))) = map_delete (sessions s) sid"
  "messages (snd (removeSession sid (ls, s))) = map_delete (messages s) sid"
  "streaming (snd (removeSession sid (ls, s))) = map_delete (streaming s) sid"
  "streamingStartedAt (snd (removeSession sid (ls, s))) = map_delete (streamingStartedAt s) sid"
  "streamingOutputTokens (snd (removeSession sid (ls, s))) = map_delete (streamingOutputTokens s) sid"
  "pendingPermissions (snd (removeSession sid (ls, s))) = map_delete (pendingPermissions s) sid"
  "connectionStatus (snd (removeSession sid (ls, s))) = map_delete (connectionStatus s) sid"
  "cliConnected (snd (removeSession sid (ls, s))) = map_delete (cliConnected s) sid"
  "sessionStatus (snd (removeSession sid (ls, s))) = map_delete (sessionStatus s) sid"
  "previousPermissionMode (snd (removeSession sid (ls, s))) = map_delete (previousPermissionMode s) sid"
  "sessionTasks (snd (removeSession sid (ls, s))) = map_delete (sessionTasks s) sid"
  "sessionNames (snd (removeSession sid (ls, s))) = map_delete (sessionNames s) sid"
  "sdkSessions (snd (removeSession sid (ls, s))) = filter (\<lambda>sdk. sessionId sdk \<noteq> sid) (sdkSessions s)"
  "currentSessionId (snd (removeSession sid (ls, s))) =
     (if currentSessionId s = Some sid then None else currentSessionId s)"
  "cc_session_names (fst (removeSession sid (ls, s))) = Some (map_delete (sessionNames s) sid)"
  "cc_current_session (fst (removeSession sid (ls, s))) =
     (if currentSessionId s = Some sid then None else cc_current_session ls)"
  by (simp_all add: removeSession_def Let_def)

lemma not_key_after_delete: "k \<notin> set (map_keys (map_delete m k))"
  by (simp add: keys_map_delete)

text \<open>
  C3. After \<open>removeSession\<close> none of the twelve per-session maps has an entry for the
  session id: sessions, messages, the streaming text and its two statistics, pending
  permissions, connection status, CLI connection, session status, previous permission
  mode, tasks and display names. The id is also gone from \<open>sdkSessions\<close>, it is not the
  current session, and the names written to \<open>localStorage\<close> have no entry for it.
\<close>

theorem removeSession_removes_every_record:
  "sid \<notin> set (map_keys (sessions (snd (removeSession sid (ls, s))))) \<and>
   sid \<notin> set (map_keys (messages (snd (removeSession sid (ls, s))))) \<and>
   sid \<notin> set (map_keys (streaming (snd (removeSession sid (ls, s))))) \<and>
   sid \<notin> set (map_keys (streamingStartedAt (snd (removeSession sid (ls, s))))) \<and>
   sid \<notin> set (map_keys (streamingOutputTokens (snd (removeSession sid (ls, s))))) \<and>
   sid \<notin> set (map_keys (pendingPermissions (snd (removeSession sid (ls, s))))) \<and>
   sid \<notin> set (map_keys (connectionStatus (snd (removeSession sid (ls, s))))) \<and>
   sid \<notin> set (map_keys (cliConnected (snd (removeSession sid (ls, s))))) \<and>
   sid \<notin> set (map_keys (sessionStatus (snd (removeSession sid (ls, s))))) \<and>
   sid \<notin> set (map_keys (previousPermissionMode (snd (removeSession sid (ls, s))))) \<and>
   sid \<notin> set (map_keys (sessionTasks (snd (removeSession sid (ls, s))))) \<and>
   sid \<notin> set (map_keys (sessionNames (snd (removeSession sid (ls, s))))) \<and>
   sid \<notin> set (map sessionId (sdkSessions (snd (removeSession sid (ls, s))))) \<and>
   currentSessionId (snd (removeSession sid (ls, s))) \<noteq> Some sid \<and>
   cc_session_names (fst (removeSession sid (ls, s))) = Some (sessionNames (snd (removeSession sid (ls, s))))"
  by (auto simp add: removeSession_fields not_key_after_delete)

section \<open>Appending messages\<close>

lemma session_messages_appendMessage:
  "session_messages (appendMessage sid msg s) sid' =
     (if sid' = sid then session_messages s sid @ [msg] else session_messages s sid')"
  by (simp add: appendMessage_def session_messages_def Let_def map_get_set)

lemma session_messages_foldl_append:
  "session_messages (foldl (\<lambda>s' m. appendMessage sid m s') s msgs) sid = session_messages s sid @ msgs"
  by (induction msgs arbitrary: s) (simp_all add: session_messages_appendMessage)

lemma session_messages_initial: "session_messages (initial_state browser) sid = []"
  by (simp add: session_messages_def initial_state_def)

text \<open>
  C7. After \<open>appendMessage\<close> the session's list is the prior list (empty when the
  session had none) followed by the new message; the list of every other session is the
  one it was; no other field of the state changes.
\<close>

theorem appendMessage_append_only:
  "map_get (messages (appendMessage sid msg s)) sid = Some (session_messages s sid @ [msg]) \<and>
   (\<forall>sid'. sid' \<noteq> sid \<longrightarrow> map_get (messages (appendMessage sid msg s)) sid' = map_get (messages s) sid') \<and>
   appendMessage sid msg s = s\<lparr>messages := messages (appendMessage sid msg s)\<rparr>"
  by (simp add: appendMessage_def Let_def map_get_set)

theorem appendMessage_append_only_witness:
  "map_get (messages (appendMessage ''s1'' ''again'' example_state)) ''s1'' = Some [''hello'', ''again''] \<and>
   ''s2'' \<noteq> ''s1'' \<and>
   map_get (messages (appendMessage ''s1'' ''again'' example_state)) ''s2'' = None"
proof -
  have "session_messages example_state ''s1'' = [''hello'']"
    by (simp add: session_messages_def example_state_eval)
  moreover have "map_get (messages example_state) ''s2'' = None"
    by (simp add: example_state_eval)
  ultimately show ?thesis
    using appendMessage_append_only [of "''s1''" "''again''" example_state] by simp
qed

text \<open>
  C4, as the store has it. \<open>appendMessage\<close> has no cap: the session's list grows by
  exactly one message, every earlier message stays in place (the oldest included), and
  the new message is last.
\<close>

theorem appendMessage_unbounded:
  "length (session_messages (appendMessage sid msg s) sid) = Suc (length (session_messages s sid)) \<and>
   take (length (session_messages s sid)) (session_messages (appendMessage sid msg s) sid) =
     session_messages s sid \<and>
   last (session_messages (appendMessage sid msg s) sid) = msg"
  by (simp add: session_messages_appendMessage)

text \<open>
  C4, as stated, fails: no cap bounds the length of a session's list. From the initial
  state, appending the messages of any list one by one gives a list of that length.
\<close>

theorem appendMessage_no_cap_counterexample:
  "\<not> (\<exists>cap. \<forall>msgs :: string list.
        length (session_messages
          (foldl (\<lambda>s' m. appendMessage ''s1'' m s')
             (initial_state None :: (unit, unit, string, string, unit) app_state) msgs) ''s1'') \<le> cap)"
proof
  assume "\<exists>cap. \<forall>msgs :: string list.
        length (session_messages
          (foldl (\<lambda>s' m. appendMessage ''s1'' m s')
             (initial_state None :: (unit, unit, string, string, unit) app_state) msgs) ''s1'') \<le> cap"
  then obtain cap where "\<forall>msgs :: string list.
        length (session_messages
          (foldl (\<lambda>s' m. appendMessage ''s1'' m s')
             (initial_state None :: (unit, unit, string, string, unit) app_state) msgs) ''s1'') \<le> cap"
    by blast
  then have "\<forall>msgs :: string list. length msgs \<le> cap"
    by (simp add: session_messages_foldl_append session_messages_initial)
  then have "length (replicate (Suc cap) ''m'') \<le> cap"
    by (rule spec)
  then show False by simp
qed

section \<open>Unique request ids\<close>

lemma list_all_map_set: "list_all P m \<Longrightarrow> P (k, v) \<Longrightarrow> list_all P (map_set m k v)"
  using set_map_set_subset [of m k v] by (auto simp: list_all_iff)

lemma list_all_map_delete: "list_all P m \<Longrightarrow> list_all P (map_delete m k)"
  by (simp add: map_delete_filter list_all_iff)

lemma request_ids_are_keys:
  "list_all (\<lambda>(k, p). k = request_id p) sp \<Longrightarrow> map (\<lambda>(k, p). request_id p) sp = map_keys sp"
  by (induction sp) (auto simp: map_keys_def)

lemma pending_set_ok_iff:
  "pending_set_ok sp \<longleftrightarrow> distinct (map_keys sp) \<and> list_all (\<lambda>(k, p). k = request_id p) sp"
  using request_ids_are_keys [of sp] by (auto simp: pending_set_ok_def)

lemma distinct_keys_map_set: "distinct (map_keys m) \<Longrightarrow> distinct (map_keys (map_set m k v))"
  by (simp add: keys_map_set)

lemma distinct_keys_map_delete: "distinct (map_keys m) \<Longrightarrow> distinct (map_keys (map_delete m k))"
  by (simp add: keys_map_delete distinct_removeAll)

lemma pending_set_ok_empty: "pending_set_ok []"
  by (simp add: pending_set_ok_def)

lemma pending_set_ok_set: "pending_set_ok sp \<Longrightarrow> pending_set_ok (map_set sp (request_id p) p)"
  by (simp add: pending_set_ok_iff distinct_keys_map_set list_all_map_set)

lemma pending_set_ok_delete: "pending_set_ok sp \<Longrightarrow> pending_set_ok (map_delete sp k)"
  by (simp add: pending_set_ok_iff distinct_keys_map_delete list_all_map_delete)

lemma pending_unique_session:
  assumes "pending_unique s"
  shows "pending_set_ok (session_permissions s sid)"
proof (cases "map_get (pendingPermissions s) sid")
  case None
  then show ?thesis by (simp add: session_permissions_def pending_set_ok_empty)
next
  case (Some sp)
  then have "(sid, sp) \<in> set (pendingPermissions s)" by (rule map_get_in_set)
  with assms have "pending_set_ok sp" by (auto simp: pending_unique_def list_all_iff)
  with Some show ?thesis by (simp add: session_permissions_def)
qed

lemma pending_unique_update:
  assumes "pending_unique s" and "pending_set_ok sp"
  shows "pending_unique (s\<lparr>pendingPermissions := map_set (pendingPermissions s) sid sp\<rparr>)"
  using assms by (simp add: pending_unique_def distinct_keys_map_set list_all_map_set)

lemma pending_unique_addPermission:
  "pending_unique s \<Longrightarrow> pending_unique (addPermission sid perm s)"
  by (simp add: addPermission_def Let_def pending_unique_update pending_set_ok_set pending_unique_session)

lemma pending_unique_removePermission:
  assumes "pending_unique s"
  shows "pending_unique (removePermission sid requestId s)"
proof (cases "map_get (pendingPermissions s) sid")
  case None
  with assms show ?thesis by (simp add: removePermission_def)
next
  case (Some sp)
  then have "session_permissions s sid = sp" by (simp add: session_permissions_def)
  with assms have "pending_set_ok sp" using pending_unique_session [of s sid] by simp
  then have "pending_set_ok (map_delete sp requestId)" by (rule pending_set_ok_delete)
  with assms Some show ?thesis
    by (simp add: removePermission_def pending_unique_update)
qed

lemma pending_unique_op: "pending_unique s \<Longrightarrow> pending_unique (apply_permission_op op s)"
  by (cases op) (simp_all add: pending_unique_addPermission pending_unique_removePermission)

lemma pending_unique_run: "pending_unique s \<Longrightarrow> pending_unique (run_permission_ops ops s)"
  unfolding run_permission_ops_def
  by (induction ops arbitrary: s) (simp_all add: pending_unique_op)

lemma pending_unique_initial: "pending_unique (initial_state browser)"
  by (simp add: pending_unique_def initial_state_def map_keys_def)

lemma session_permissions_addPermission:
  "session_permissions (addPermission sid perm s) sid =
     map_set (session_permissions s sid) (request_id perm) perm"
  by (simp add: addPermission_def Let_def session_permissions_def map_get_set)

text \<open>
  C9. After any sequence of \<open>addPermission\<close> and \<open>removePermission\<close> calls on the
  initial store (or on any store whose pending sets are well formed), each session has
  one pending set and no two entries of it carry the same \<open>request_id\<close>. Adding a
  request whose \<open>request_id\<close> is already pending keeps the number and the order of the
  entries and puts the new request in place of the old one.
\<close>

theorem pending_request_ids_unique:
  "pending_unique (run_permission_ops ops (initial_state browser)) \<and>
   (pending_unique s \<longrightarrow> pending_unique (run_permission_ops ops s)) \<and>
   (map_has (session_permissions s sid) (request_id perm) \<longrightarrow>
      length (session_permissions (addPermission sid perm s) sid) = length (session_permissions s sid) \<and>
      map_keys (session_permissions (addPermission sid perm s) sid) = map_keys (session_permissions s sid) \<and>
      map_get (session_permissions (addPermission sid perm s) sid) (request_id perm) = Some perm)"
proof (intro conjI impI)
  show "pending_unique (run_permission_ops ops (initial_state browser))"
    by (rule pending_unique_run) (rule pending_unique_initial)
next
  assume "pending_unique s"
  then show "pending_unique (run_permission_ops ops s)" by (rule pending_unique_run)
next
  assume "map_has (session_permissions s sid) (request_id perm)"
  then show "length (session_permissions (addPermission sid perm s) sid) = length (session_permissions s sid)"
    by (simp add: session_permissions_addPermission length_map_set)
next
  assume "map_has (session_permissions s sid) (request_id perm)"
  then have "request_id perm \<in> set (map_keys (session_permissions s sid))"
    using map_get_keys [of "session_permissions s sid" "request_id perm"] by (simp add: map_has_get)
  then show "map_keys (session_permissions (addPermission sid perm s) sid) = map_keys (session_permissions s sid)"
    by (simp add: session_permissions_addPermission keys_map_set)
next
  show "map_get (session_permissions (addPermission sid perm s) sid) (request_id perm) = Some perm"
    by (simp add: session_permissions_addPermission map_get_set)
qed

theorem pending_request_ids_unique_witness:
  "pending_unique example_state \<and>
   pending_unique (run_permission_ops
     [AddPermission ''s1'' \<lparr>request_id = ''r1'', \<dots> = ''Write''\<rparr>, RemovePermission ''s1'' ''r2'']
     example_state) \<and>
   map_has (session_permissions example_state ''s1'') (request_id \<lparr>request_id = ''r1'', \<dots> = ''Write''\<rparr>) \<and>
   session_permissions (addPermission ''s1'' \<lparr>request_id = ''r1'', \<dots> = ''Write''\<rparr> example_state) ''s1'' =
     [(''r1'', \<lparr>request_id = ''r1'', \<dots> = ''Write''\<rparr>), (''r2'', \<lparr>request_id = ''r2'', \<dots> = ''Edit''\<rparr>)] \<and>
   length (session_permissions (addPermission ''s1'' \<lparr>request_id = ''r1'', \<dots> = ''Write''\<rparr> example_state) ''s1'') =
     length (session_permissions example_state ''s1'')"
proof -
  have ok: "pending_unique example_state"
    by (simp add: pending_unique_def pending_set_ok_def map_keys_def example_state_eval)
  have has: "map_has (session_permissions example_state ''s1'') (request_id \<lparr>request_id = ''r1'', \<dots> = ''Write''\<rparr>)"
    by (simp add: session_permissions_def example_state_eval)
  have after: "session_permissions (addPermission ''s1'' \<lparr>request_id = ''r1'', \<dots> = ''Write''\<rparr> example_state) ''s1'' =
     [(''r1'', \<lparr>request_id = ''r1'', \<dots> = ''Write''\<rparr>), (''r2'', \<lparr>request_id = ''r2'', \<dots> = ''Edit''\<rparr>)]"
    by (simp add: session_permissions_addPermission) (simp add: session_permissions_def example_state_eval)
  note inst = pending_request_ids_unique [of
      "[AddPermission ''s1'' \<lparr>request_id = ''r1'', \<dots> = ''Write''\<rparr>, RemovePermission ''s1'' ''r2'']"
      None example_state "''s1''" "\<lparr>request_id = ''r1'', \<dots> = ''Write''\<rparr>"]
  from inst ok have run: "pending_unique (run_permission_ops
     [AddPermission ''s1'' \<lparr>request_id = ''r1'', \<dots> = ''Write''\<rparr>, RemovePermission ''s1'' ''r2'']
     example_state)"
    by blast
  from inst has have len:
    "length (session_permissions (addPermission ''s1'' \<lparr>request_id = ''r1'', \<dots> = ''Write''\<rparr> example_state) ''s1'') =
     length (session_permissions example_state ''s1'')"
    by blast
  from ok run has after len show ?thesis by blast
qed

section \<open>Killing a session\<close>

lemma sessions_kill_by_flag:
  "sessions_kill kill sid l =
     (if fst (kill sid l) then Json OkBody 200
      else Json (ErrorBody ''Session not found or already exited'') 404, snd (kill sid l))"
  "sessions_kill_optional kill sid (Some l) =
     (if fst (kill sid l) then Json OkBody 200
      else Json (ErrorBody ''Session not found or already exited'') 404, Some (snd (kill sid l)))"
  by (cases "kill sid l"; simp add: sessions_kill_def sessions_kill_optional_def)+

lemma kill_contract_not_running:
  "kill_contract running kill \<Longrightarrow> \<not> running l sid \<Longrightarrow> kill sid l = (False, l)"
  by (simp add: kill_contract_def)

lemma kill_contract_running:
  "kill_contract running kill \<Longrightarrow> running l sid \<Longrightarrow>
     fst (kill sid l) \<and> \<not> running (snd (kill sid l)) sid"
  by (simp add: kill_contract_def)

lemma example_kill_not_running:
  "\<not> example_running l sid \<Longrightarrow> example_kill sid l = (False, l)"
  by (cases "map_get l sid")
     (auto simp: example_running_def example_kill_def split: process_state.splits)

lemma example_kill_running:
  "example_running l sid \<Longrightarrow>
     fst (example_kill sid l) \<and> \<not> example_running (snd (example_kill sid l)) sid"
  by (simp add: example_running_def example_kill_def map_get_set)

lemma example_kill_contract: "kill_contract example_running example_kill"
  by (simp add: kill_contract_def example_kill_not_running example_kill_running)

text \<open>
  C2, as the handlers have it. Let \<open>launcher.kill\<close> keep its contract. Then a kill
  request for a session that is not running (it has exited, or the launcher does not
  know it) is answered with status 404 and the error
  \<open>Session not found or already exited\<close>, and the launcher state after the request is
  the state before it, in both versions of the handler. A kill request for a running
  session is answered with \<open>{ ok: true }\<close>, and a second kill request for the same
  session is then answered with status 404 and changes nothing.
\<close>

theorem sessions_kill_not_running_404:
  assumes "kill_contract running kill"
  shows "(\<not> running l sid \<longrightarrow>
            sessions_kill kill sid l =
              (Json (ErrorBody ''Session not found or already exited'') 404, l) \<and>
            sessions_kill_optional kill sid (Some l) =
              (Json (ErrorBody ''Session not found or already exited'') 404, Some l)) \<and>
         (running l sid \<longrightarrow>
            fst (sessions_kill kill sid l) = Json OkBody 200 \<and>
            sessions_kill kill sid (snd (sessions_kill kill sid l)) =
              (Json (ErrorBody ''Session not found or already exited'') 404,
               snd (sessions_kill kill sid l)))"
proof (intro conjI impI)
  assume "\<not> running l sid"
  with assms have k: "kill sid l = (False, l)" by (rule kill_contract_not_running)
  show "sessions_kill kill sid l = (Json (ErrorBody ''Session not found or already exited'') 404, l)"
    by (simp add: sessions_kill_by_flag k)
  show "sessions_kill_optional kill sid (Some l) =
      (Json (ErrorBody ''Session not found or already exited'') 404, Some l)"
    by (simp add: sessions_kill_by_flag k)
next
  assume r: "running l sid"
  with assms have k: "fst (kill sid l)" and after: "\<not> running (snd (kill sid l)) sid"
    using kill_contract_running [of running kill l sid] by simp_all
  from k show "fst (sessions_kill kill sid l) = Json OkBody 200"
    by (simp add: sessions_kill_by_flag)
  from assms after have k2: "kill sid (snd (kill sid l)) = (False, snd (kill sid l))"
    by (rule kill_contract_not_running)
  show "sessions_kill kill sid (snd (sessions_kill kill sid l)) =
      (Json (ErrorBody ''Session not found or already exited'') 404, snd (sessions_kill kill sid l))"
    by (simp add: sessions_kill_by_flag k2)
qed

theorem sessions_kill_not_running_404_witness:
  "kill_contract example_running example_kill \<and>
   \<not> example_running [(''s1'', ProcessExited), (''s2'', ProcessRunning)] ''s1'' \<and>
   sessions_kill example_kill ''s1'' [(''s1'', ProcessExited), (''s2'', ProcessRunning)] =
     (Json (ErrorBody ''Session not found or already exited'') 404,
      [(''s1'', ProcessExited), (''s2'', ProcessRunning)]) \<and>
   example_running [(''s1'', ProcessExited), (''s2'', ProcessRunning)] ''s2'' \<and>
   sessions_kill example_kill ''s2'' [(''s1'', ProcessExited), (''s2'', ProcessRunning)] =
     (Json OkBody 200, [(''s1'', ProcessExited), (''s2'', ProcessExited)]) \<and>
   sessions_kill example_kill ''s2'' [(''s1'', ProcessExited), (''s2'', ProcessExited)] =
     (Json (ErrorBody ''Session not found or already exited'') 404,
      [(''s1'', ProcessExited), (''s2'', ProcessExited)])"
proof -
  have n1: "\<not> example_running [(''s1'', ProcessExited), (''s2'', ProcessRunning)] ''s1''"
    and r2: "example_running [(''s1'', ProcessExited), (''s2'', ProcessRunning)] ''s2''"
    by (simp_all add: example_running_def)
  have first: "sessions_kill example_kill ''s2'' [(''s1'', ProcessExited), (''s2'', ProcessRunning)] =
      (Json OkBody 200, [(''s1'', ProcessExited), (''s2'', ProcessExited)])"
    by (simp add: sessions_kill_def example_kill_def)
  note inst1 = sessions_kill_not_running_404 [OF example_kill_contract,
      of "[(''s1'', ProcessExited), (''s2'', ProcessRunning)]" "''s1''"]
  note inst2 = sessions_kill_not_running_404 [OF example_kill_contract,
      of "[(''s1'', ProcessExited), (''s2'', ProcessRunning)]" "''s2''"]
  from inst1 n1 have a: "sessions_kill example_kill ''s1'' [(''s1'', ProcessExited), (''s2'', ProcessRunning)] =
     (Json (ErrorBody ''Session not found or already exited'') 404,
      [(''s1'', ProcessExited), (''s2'', ProcessRunning)])"
    by blast
  from inst2 r2 have "sessions_kill example_kill ''s2''
      (snd (sessions_kill example_kill ''s2'' [(''s1'', ProcessExited), (''s2'', ProcessRunning)])) =
     (Json (ErrorBody ''Session not found or already exited'') 404,
      snd (sessions_kill example_kill ''s2'' [(''s1'', ProcessExited), (''s2'', ProcessRunning)]))"
    by blast
  then have b: "sessions_kill example_kill ''s2'' [(''s1'', ProcessExited), (''s2'', ProcessExited)] =
     (Json (ErrorBody ''Session not found or already exited'') 404,
      [(''s1'', ProcessExited), (''s2'', ProcessExited)])"
    by (simp add: first)
  from example_kill_contract n1 a r2 first b show ?thesis by blast
qed

text \<open>
  C2, as stated, fails. With a launcher that keeps the contract, a kill request for a
  session that has exited, and one for a session the launcher does not know, are
  answered with status 404 and an error, not with success; the launcher state does not
  change.
\<close>

theorem sessions_kill_not_running_counterexample:
  "kill_contract example_running example_kill \<and>
   \<not> example_running [(''s1'', ProcessExited)] ''s1'' \<and>
   \<not> example_running [(''s1'', ProcessExited)] ''s9'' \<and>
   sessions_kill example_kill ''s1'' [(''s1'', ProcessExited)] =
     (Json (ErrorBody ''Session not found or already exited'') 404, [(''s1'', ProcessExited)]) \<and>
   sessions_kill example_kill ''s9'' [(''s1'', ProcessExited)] =
     (Json (ErrorBody ''Session not found or already exited'') 404, [(''s1'', ProcessExited)]) \<and>
   sessions_kill_optional example_kill ''s1'' (Some [(''s1'', ProcessExited)]) =
     (Json (ErrorBody ''Session not found or already exited'') 404, Some [(''s1'', ProcessExited)]) \<and>
   fst (sessions_kill example_kill ''s1'' [(''s1'', ProcessExited)]) \<noteq> Json OkBody 200"
  using example_kill_contract
  by (simp add: sessions_kill_def sessions_kill_optional_def example_kill_def example_running_def)

section \<open>Approving a request\<close>

text \<open>
  C8. A body without a \<open>requestId\<close> (or with an empty one), or with a \<open>type\<close> that is
  neither \<open>plan\<close> nor \<open>permission\<close>, is answered with status 400, and the bridge state
  is the one before the request, whatever the bridge: no controller call is made and no
  approval is removed.
\<close>

theorem agents_approve_validation_400:
  assumes "\<not> truthy (body_requestId body) \<or> body_type body \<notin> {Some ''plan'', Some ''permission''}"
  shows "agents_approve B agent (Some body) st =
           (Inr (Json (ErrorBody (if \<not> truthy (body_requestId body) then ''requestId is required''
                                  else ''type must be \"plan\" or \"permission\"'')) 400), st)"
proof (cases "body_requestId body")
  case None
  then show ?thesis by (simp add: agents_approve_def)
next
  case (Some requestId)
  show ?thesis
  proof (cases "requestId = []")
    case True
    with Some show ?thesis by (simp add: agents_approve_def)
  next
    case False
    with Some assms have "body_type body \<notin> {Some ''plan'', Some ''permission''}" by simp
    with Some False show ?thesis by (simp add: agents_approve_def)
  qed
qed

theorem agents_approve_validation_400_witness:
  "\<not> truthy (body_requestId \<lparr>body_requestId = None, body_type = Some ''plan'', body_approve = Some True, body_feedback = None\<rparr>) \<and>
   agents_approve recording_bridge ''reviewer''
     (Some \<lparr>body_requestId = None, body_type = Some ''plan'', body_approve = Some True, body_feedback = None\<rparr>) [] =
     (Inr (Json (ErrorBody ''requestId is required'') 400), []) \<and>
   body_type \<lparr>body_requestId = Some ''r1'', body_type = Some ''other'', body_approve = Some True, body_feedback = None\<rparr>
     \<notin> {Some ''plan'', Some ''permission''} \<and>
   agents_approve recording_bridge ''reviewer''
     (Some \<lparr>body_requestId = Some ''r1'', body_type = Some ''other'', body_approve = Some True, body_feedback = None\<rparr>) [] =
     (Inr (Json (ErrorBody ''type must be \"plan\" or \"permission\"'') 400), [])"
  using
    agents_approve_validation_400 [of
      "\<lparr>body_requestId = None, body_type = Some ''plan'', body_approve = Some True, body_feedback = None\<rparr>"
      recording_bridge "''reviewer''" "[]"]
    agents_approve_validation_400 [of
      "\<lparr>body_requestId = Some ''r1'', body_type = Some ''other'', body_approve = Some True, body_feedback = None\<rparr>"
      recording_bridge "''reviewer''" "[]"]
  by simp

text \<open>
  C10. When the body has a \<open>requestId\<close> and no \<open>approve\<close> field, the controller call is
  made with \<open>approve = true\<close>: \<open>sendPlanApproval\<close> for the type \<open>plan\<close> (with the
  feedback of the body), \<open>sendPermissionResponse\<close> for the type \<open>permission\<close>.
\<close>

theorem agents_approve_default_true:
  assumes "body_requestId body = Some requestId" and "requestId \<noteq> []"
    and "body_approve body = None"
  shows "(body_type body = Some ''plan'' \<longrightarrow>
            agents_approve B agent (Some body) st =
              approve_finish B requestId (sendPlanApproval B agent requestId True (body_feedback body) st)) \<and>
         (body_type body = Some ''permission'' \<longrightarrow>
            agents_approve B agent (Some body) st =
              approve_finish B requestId (sendPermissionResponse B agent requestId True st))"
  using assms by (simp add: agents_approve_def)

theorem agents_approve_default_true_witness:
  "agents_approve recording_bridge ''reviewer''
     (Some \<lparr>body_requestId = Some ''r1'', body_type = Some ''plan'', body_approve = None, body_feedback = Some ''ok''\<rparr>) [] =
     (Inr (Json OkBody 200), [SendPlanApproval ''reviewer'' ''r1'' True (Some ''ok''), RemoveApproval ''r1'']) \<and>
   agents_approve recording_bridge ''reviewer''
     (Some \<lparr>body_requestId = Some ''r1'', body_type = Some ''permission'', body_approve = None, body_feedback = None\<rparr>) [] =
     (Inr (Json OkBody 200), [SendPermissionResponse ''reviewer'' ''r1'' True, RemoveApproval ''r1''])"
  using
    agents_approve_default_true [of
      "\<lparr>body_requestId = Some ''r1'', body_type = Some ''plan'', body_approve = None, body_feedback = Some ''ok''\<rparr>"
      "''r1''" recording_bridge "''reviewer''" "[]"]
    agents_approve_default_true [of
      "\<lparr>body_requestId = Some ''r1'', body_type = Some ''permission'', body_approve = None, body_feedback = None\<rparr>"
      "''r1''" recording_bridge "''reviewer''" "[]"]
  by (simp add: approve_finish_def recording_bridge_def)

section \<open>Creating a session with an environment bundle\<close>

lemma map_get_append:
  "map_get (xs @ ys) k = (case map_get xs k of Some v \<Rightarrow> Some v | None \<Rightarrow> map_get ys k)"
  by (induction xs) auto

lemma map_get_foldl_set:
  "map_get (foldl (\<lambda>m (k, v). map_set m k v) m es) k' =
     (case map_get (rev es) k' of Some v \<Rightarrow> Some v | None \<Rightarrow> map_get m k')"
proof (induction es arbitrary: m)
  case Nil
  show ?case by simp
next
  case (Cons e es)
  obtain k v where e: "e = (k, v)" by (cases e)
  show ?case
    by (simp add: e Cons.IH map_get_append map_get_set split: option.splits)
qed

lemma map_get_rev:
  assumes "distinct (map_keys m)"
  shows "map_get (rev m) k = map_get m k"
  using assms
proof (induction m)
  case Nil
  show ?case by simp
next
  case (Cons e m)
  obtain k' v where e: "e = (k', v)" by (cases e)
  from Cons.prems e have notin: "k' \<notin> set (map_keys m)" and d: "distinct (map_keys m)"
    by (simp_all add: map_keys_def)
  from notin have none: "map_get m k' = None" by (simp add: map_get_keys)
  from d have IH: "map_get (rev m) k = map_get m k" by (rule Cons.IH)
  show ?case
  proof (cases "k' = k")
    case True
    with none IH e show ?thesis by (simp add: map_get_append)
  next
    case False
    with IH e show ?thesis by (simp add: map_get_append split: option.splits)
  qed
qed

lemma map_get_spread2:
  assumes "distinct (map_keys a)" and "distinct (map_keys (spread_entries b))"
  shows "map_get (spread2 a b) k =
     (case map_get (spread_entries b) k of Some v \<Rightarrow> Some v | None \<Rightarrow> map_get a k)"
  using assms
  by (simp add: spread2_def map_of_entries_def map_get_foldl_set map_get_append map_get_rev
      split: option.splits)

lemma resolve_env_vars_found:
  assumes "body_envSlug body = Some sl" and "sl \<noteq> []" and "getEnv dir sl = Some companionEnv"
  shows "resolve_env_vars dir body =
     (Some (spread2 (variables companionEnv) (body_env body)),
      [LogInjecting (name companionEnv) (length (map_keys (variables companionEnv)))
         (map_keys (variables companionEnv))])"
  using assms by (simp add: resolve_env_vars_def)

lemma resolve_env_vars_not_found:
  assumes "body_envSlug body = Some sl" and "sl \<noteq> []" and "getEnv dir sl = None"
  shows "resolve_env_vars dir body = (body_env body, [WarnNotFound sl])"
  using assms by (simp add: resolve_env_vars_def)

text \<open>
  C5. When the body names a bundle that \<open>getEnv\<close> finds, the session is launched with
  the object \<open>{ ...bundle, ...explicit }\<close> as its environment: a key the body gives
  has the body's value, also when the bundle has it too, and every other key has the
  bundle's value. The injection is logged. An object has each of its keys once; the two
  hypotheses on distinct keys say so of the entry lists that stand for the objects.
\<close>

theorem sessions_create_merges_bundle:
  assumes "body_envSlug body = Some sl" and "sl \<noteq> []"
    and "getEnv dir sl = Some companionEnv"
    and "distinct (map_keys (variables companionEnv))"
    and "distinct (map_keys (spread_entries (body_env body)))"
  shows "sessions_create dir launch (Some body) l =
           create_respond
             [LogInjecting (name companionEnv) (length (map_keys (variables companionEnv)))
                (map_keys (variables companionEnv))]
             (launch \<lparr>model = body_model body, permissionMode = body_permissionMode body,
                      cwd = body_cwd body, claudeBinary = body_claudeBinary body,
                      allowedTools = body_allowedTools body,
                      env = Some (spread2 (variables companionEnv) (body_env body))\<rparr> l) \<and>
         (\<forall>k v. map_get (spread_entries (body_env body)) k = Some v \<longrightarrow>
            map_get (spread2 (variables companionEnv) (body_env body)) k = Some v) \<and>
         (\<forall>k. map_get (spread_entries (body_env body)) k = None \<longrightarrow>
            map_get (spread2 (variables companionEnv) (body_env body)) k =
              map_get (variables companionEnv) k)"
proof (intro conjI allI impI)
  show "sessions_create dir launch (Some body) l =
           create_respond
             [LogInjecting (name companionEnv) (length (map_keys (variables companionEnv)))
                (map_keys (variables companionEnv))]
             (launch \<lparr>model = body_model body, permissionMode = body_permissionMode body,
                      cwd = body_cwd body, claudeBinary = body_claudeBinary body,
                      allowedTools = body_allowedTools body,
                      env = Some (spread2 (variables companionEnv) (body_env body))\<rparr> l)"
    by (simp add: sessions_create_def resolve_env_vars_found [OF assms(1-3)])
next
  fix k v
  assume "map_get (spread_entries (body_env body)) k = Some v"
  then show "map_get (spread2 (variables companionEnv) (body_env body)) k = Some v"
    by (simp add: map_get_spread2 [OF assms(4,5)])
next
  fix k
  assume "map_get (spread_entries (body_env body)) k = None"
  then show "map_get (spread2 (variables companionEnv) (body_env body)) k =
      map_get (variables companionEnv) k"
    by (simp add: map_get_spread2 [OF assms(4,5)])
qed

lemma example_getEnv:
  "getEnv example_dir ''prod'' =
     Some \<lparr>name = ''Prod'', slug = ''prod'',
            variables = [(''API_URL'', ''https://prod''), (''REGION'', ''eu'')],
            createdAt = 1, updatedAt = 2\<rparr>"
  "getEnv example_dir ''broken'' = None"
  "getEnv example_dir ''staging'' = None"
  by (simp_all add: getEnv_def example_dir_def filePath_def)

lemma example_spread:
  "spread2 [(''API_URL'', ''https://prod''), (''REGION'', ''eu'')] (Some [(''REGION'', ''us''), (''DEBUG'', ''1'')]) =
     [(''API_URL'', ''https://prod''), (''REGION'', ''us''), (''DEBUG'', ''1'')]"
  by (simp add: spread2_def spread_entries_def map_of_entries_def)

theorem sessions_create_merges_bundle_witness:
  "sessions_create example_dir recording_launch (Some example_create_body) [] =
     ((Json (Data 0) 200, [LogInjecting ''Prod'' 2 [''API_URL'', ''REGION'']]),
      [\<lparr>model = Some ''opus'', permissionMode = None, cwd = Some ''/tmp'', claudeBinary = None,
        allowedTools = None,
        env = Some [(''API_URL'', ''https://prod''), (''REGION'', ''us''), (''DEBUG'', ''1'')]\<rparr>])"
proof -
  have slug: "body_envSlug example_create_body = Some ''prod''" and "''prod'' \<noteq> []"
    by (simp_all add: example_create_body_def)
  moreover have "distinct (map_keys (variables
      \<lparr>name = ''Prod'', slug = ''prod'',
        variables = [(''API_URL'', ''https://prod''), (''REGION'', ''eu'')],
        createdAt = 1, updatedAt = 2\<rparr>))"
    by (simp add: map_keys_def)
  moreover have "distinct (map_keys (spread_entries (body_env example_create_body)))"
    by (simp add: map_keys_def spread_entries_def example_create_body_def)
  ultimately have "sessions_create example_dir recording_launch (Some example_create_body) [] =
      create_respond [LogInjecting ''Prod'' 2 [''API_URL'', ''REGION'']]
        (recording_launch
          \<lparr>model = Some ''opus'', permissionMode = None, cwd = Some ''/tmp'', claudeBinary = None,
            allowedTools = None,
            env = Some [(''API_URL'', ''https://prod''), (''REGION'', ''us''), (''DEBUG'', ''1'')]\<rparr> [])"
    using sessions_create_merges_bundle [OF _ _ example_getEnv(1), of example_create_body recording_launch "[]",
        THEN conjunct1]
      example_spread
    by (simp add: example_create_body_def map_keys_def numeral_2_eq_2)
  then show ?thesis
    by (simp add: create_respond_def recording_launch_def)
qed

text \<open>
  C6. When the body names a bundle that \<open>getEnv\<close> does not find, the handler logs the
  warning and launches the session with the variables of the body alone; when the launch
  returns a session, the answer is that session with status 200.
\<close>

theorem sessions_create_bundle_not_found:
  assumes "body_envSlug body = Some sl" and "sl \<noteq> []" and "getEnv dir sl = None"
  shows "sessions_create dir launch (Some body) l =
           create_respond [WarnNotFound sl]
             (launch \<lparr>model = body_model body, permissionMode = body_permissionMode body,
                      cwd = body_cwd body, claudeBinary = body_claudeBinary body,
                      allowedTools = body_allowedTools body, env = body_env body\<rparr> l) \<and>
         (\<forall>session l'.
            launch \<lparr>model = body_model body, permissionMode = body_permissionMode body,
                     cwd = body_cwd body, claudeBinary = body_claudeBinary body,
                     allowedTools = body_allowedTools body, env = body_env body\<rparr> l = (Inr session, l') \<longrightarrow>
            sessions_create dir launch (Some body) l = ((Json (Data session) 200, [WarnNotFound sl]), l'))"
  by (simp add: sessions_create_def resolve_env_vars_not_found [OF assms] create_respond_def)

theorem sessions_create_bundle_not_found_witness:
  "getEnv example_dir ''staging'' = None \<and>
   sessions_create example_dir recording_launch
     (Some (example_create_body\<lparr>body_envSlug := Some ''staging''\<rparr>)) [] =
     ((Json (Data 0) 200, [WarnNotFound ''staging'']),
      [\<lparr>model = Some ''opus'', permissionMode = None, cwd = Some ''/tmp'', claudeBinary = None,
        allowedTools = None, env = Some [(''REGION'', ''us''), (''DEBUG'', ''1'')]\<rparr>])"
proof -
  have "body_envSlug (example_create_body\<lparr>body_envSlug := Some ''staging''\<rparr>) = Some ''staging''"
    and "''staging'' \<noteq> []"
    by simp_all
  from sessions_create_bundle_not_found [OF this example_getEnv(3), of recording_launch "[]"]
  show ?thesis
    by (simp add: example_getEnv example_create_body_def recording_launch_def create_respond_def)
qed

end
